theory Spec2Isabelle
  imports Complex_Main "HOL-Library.Char_ord" "HOL-Library.List_Lexorder"
begin

section \<open>Image Organizer: a shallow embedding of \<open>src/image-organizer.js\<close>\<close>

text \<open>
  The program copies picture files from a source tree into a destination tree sorted by
  year, month and day, adds the nearest city when the picture carries GPS data, and can
  ask an Ollama/LLaVA service for keywords that go into the file name and the EXIF block.

  The embedding follows the source function by function and keeps its names. What the
  source takes from the JavaScript runtime and from Node libraries is modelled as follows.
  \<^item> A JavaScript string is a \<^typ>\<open>string\<close>; the model is exact on ASCII text
    (\<open>toLowerCase\<close>, \<open>trim\<close> and \<open>\s\<close> act on ASCII letters and ASCII white space).
  \<^item> A JavaScript number that takes part in floating-point arithmetic is a
    \<open>js_float\<close>: NaN, the two infinities, or a finite value carried as an exact real
    (the rounding of doubles is not modelled).
  \<^item> Paths are POSIX paths; \<open>path.join\<close> joins its non-empty segments with a slash and
    does not normalise \<open>.\<close>, \<open>..\<close> or doubled slashes.
  \<^item> What the outside world answers for one call of \<open>processFile\<close> (the result of
    \<open>fs.stat\<close>, of \<open>piexif.load\<close>, of \<open>ffprobe\<close> and of the two HTTP requests) is a
    record \<open>env\<close>; the paths that exist on disk are a list \<open>fs\<close>.
  \<^item> What \<open>processFile\<close> does to the outside world is the list of \<open>event\<close>s it
    returns, in the order of the calls.
\<close>

subsection \<open>JavaScript strings\<close>

definition toLowerCase_char :: "char \<Rightarrow> char" where
  "toLowerCase_char c =
     (if CHR ''A'' \<le> c \<and> c \<le> CHR ''Z'' then char_of (of_char c + (32::nat)) else c)"

text \<open>\<open>String.prototype.toLowerCase\<close>.\<close>

definition toLowerCase :: "string \<Rightarrow> string" where
  "toLowerCase s = map toLowerCase_char s"

text \<open>The white space of \<open>trim\<close> and of the regular expression \<open>\s\<close>: tab, line feed,
  vertical tab, form feed, carriage return and space.\<close>

definition isWhiteSpace :: "char \<Rightarrow> bool" where
  "isWhiteSpace c = (c \<in> set [CHR 0x09, CHR 0x0A, CHR 0x0B, CHR 0x0C, CHR 0x0D, CHR '' ''])"

text \<open>\<open>String.prototype.trim\<close>.\<close>

definition trim :: "string \<Rightarrow> string" where
  "trim s = rev (dropWhile isWhiteSpace (rev (dropWhile isWhiteSpace s)))"

text \<open>\<open>s.split(sep)\<close> for a one-character separator: the empty string splits into one
  empty part.\<close>

fun split :: "char \<Rightarrow> string \<Rightarrow> string list" where
  "split sep [] = [[]]"
| "split sep (c # cs) =
     (if c = sep then [] # split sep cs
      else (case split sep cs of
              [] \<Rightarrow> [[c]]
            | w # ws \<Rightarrow> (c # w) # ws))"

text \<open>\<open>Array.prototype.join\<close>.\<close>

fun join :: "string \<Rightarrow> string list \<Rightarrow> string" where
  "join sep [] = []"
| "join sep [x] = x"
| "join sep (x # y # ys) = x @ sep @ join sep (y # ys)"

text \<open>\<open>String.prototype.endsWith\<close>.\<close>

definition endsWith :: "string \<Rightarrow> string \<Rightarrow> bool" where
  "endsWith s suf = (length suf \<le> length s \<and> drop (length s - length suf) s = suf)"

text \<open>\<open>String.prototype.padStart\<close> with a one-character filler.\<close>

definition padStart :: "nat \<Rightarrow> char \<Rightarrow> string \<Rightarrow> string" where
  "padStart n c s = replicate (n - length s) c @ s"

text \<open>\<open>tag.replace(/\s+/g, '_')\<close>: every maximal run of white space becomes one
  underscore.\<close>

function replace_ws :: "string \<Rightarrow> string" where
  "replace_ws [] = []"
| "replace_ws (c # cs) =
     (if isWhiteSpace c then CHR ''_'' # replace_ws (dropWhile isWhiteSpace cs)
      else c # replace_ws cs)"
  by pat_completeness auto
termination
  by (relation "measure length") (auto simp: le_imp_less_Suc length_dropWhile_le)

text \<open>\<open>String(n)\<close> for a non-negative integer and for an integer: decimal digits, with a
  minus sign for a negative number.\<close>

definition digit_char :: "nat \<Rightarrow> char" where
  "digit_char d = char_of (48 + d)"

fun String_nat :: "nat \<Rightarrow> string" where
  "String_nat n = (if n < 10 then [digit_char n] else String_nat (n div 10) @ [digit_char (n mod 10)])"

declare String_nat.simps [simp del]

definition String_int :: "int \<Rightarrow> string" where
  "String_int i = (if i < 0 then CHR ''-'' # String_nat (nat (- i)) else String_nat (nat i))"

definition isDigit :: "char \<Rightarrow> bool" where
  "isDigit c = (CHR ''0'' \<le> c \<and> c \<le> CHR ''9'')"

definition digit_val :: "char \<Rightarrow> nat" where
  "digit_val c = of_char c - 48"

definition decimal :: "string \<Rightarrow> nat" where
  "decimal s = foldl (\<lambda>a c. 10 * a + digit_val c) 0 s"

subsection \<open>Node's \<open>path\<close> module (POSIX)\<close>

text \<open>\<open>path.join\<close>: empty segments are ignored, the others are joined with a slash, and
  joining nothing gives \<open>.\<close>; the normalisation Node applies afterwards is not modelled.\<close>

definition path_join :: "string list \<Rightarrow> string" where
  "path_join segs =
     (case filter (\<lambda>s. s \<noteq> []) segs of
        [] \<Rightarrow> ''.''
      | ss \<Rightarrow> join ''/'' ss)"

text \<open>\<open>path.basename\<close>: the part after the last slash, trailing slashes ignored.\<close>

definition path_basename :: "string \<Rightarrow> string" where
  "path_basename p =
     (let q = dropWhile (\<lambda>c. c = CHR ''/'') (rev p)
      in rev (takeWhile (\<lambda>c. c \<noteq> CHR ''/'') q))"

text \<open>\<open>path.parse(p).ext\<close>: from the last dot of the base name to its end; empty when the
  base name has no dot, when its only dot is its first character, and for \<open>..\<close>.\<close>

definition path_ext :: "string \<Rightarrow> string" where
  "path_ext p =
     (let b = path_basename p;
          k = length b - length (takeWhile (\<lambda>c. c \<noteq> CHR ''.'') (rev b)) - 1
      in if k = 0 \<or> b = ''..'' \<or> CHR ''.'' \<notin> set b then [] else drop k b)"

text \<open>\<open>path.parse(p).name\<close>: the base name without its extension.\<close>

definition path_name :: "string \<Rightarrow> string" where
  "path_name p = (let b = path_basename p in take (length b - length (path_ext p)) b)"

text \<open>\<open>path.relative(from, to)\<close> for a file \<open>to\<close> below the directory \<open>from\<close>; the
  other cases (which climb with \<open>..\<close>) are not modelled and leave \<open>to\<close> as it is.\<close>

definition path_relative :: "string \<Rightarrow> string \<Rightarrow> string" where
  "path_relative from to =
     (if take (length from + 1) to = from @ ''/'' then drop (length from + 1) to else to)"

subsection \<open>JavaScript numbers\<close>

text \<open>A double: NaN, minus infinity, a finite value, plus infinity. The arithmetic below is
  the IEEE arithmetic of the operators the source uses, on exact values.\<close>

datatype js_float = NaN | NegInf | Fin real | PosInf

fun f_neg :: "js_float \<Rightarrow> js_float" where
  "f_neg NaN = NaN"
| "f_neg NegInf = PosInf"
| "f_neg (Fin x) = Fin (- x)"
| "f_neg PosInf = NegInf"

fun f_add :: "js_float \<Rightarrow> js_float \<Rightarrow> js_float" where
  "f_add NaN b = NaN"
| "f_add a NaN = NaN"
| "f_add (Fin x) (Fin y) = Fin (x + y)"
| "f_add PosInf NegInf = NaN"
| "f_add NegInf PosInf = NaN"
| "f_add PosInf b = PosInf"
| "f_add a PosInf = PosInf"
| "f_add NegInf b = NegInf"
| "f_add a NegInf = NegInf"

definition f_sub :: "js_float \<Rightarrow> js_float \<Rightarrow> js_float" where
  "f_sub a b = f_add a (f_neg b)"

text \<open>\<open>Math.pow(x, 2)\<close>.\<close>

fun f_pow2 :: "js_float \<Rightarrow> js_float" where
  "f_pow2 NaN = NaN"
| "f_pow2 (Fin x) = Fin (x * x)"
| "f_pow2 NegInf = PosInf"
| "f_pow2 PosInf = PosInf"

text \<open>\<open>Math.sqrt\<close>.\<close>

fun f_sqrt :: "js_float \<Rightarrow> js_float" where
  "f_sqrt (Fin x) = (if x < 0 then NaN else Fin (sqrt x))"
| "f_sqrt PosInf = PosInf"
| "f_sqrt NegInf = NaN"
| "f_sqrt NaN = NaN"

text \<open>The square root of a real has no code equation: \<open>f_sqrt\<close> is evaluated by
  rewriting.\<close>

declare f_sqrt.simps [code del]

text \<open>The comparison \<open>a < b\<close>: false as soon as one side is NaN.\<close>

fun f_lt :: "js_float \<Rightarrow> js_float \<Rightarrow> bool" where
  "f_lt NaN b = False"
| "f_lt a NaN = False"
| "f_lt (Fin x) (Fin y) = (x < y)"
| "f_lt a NegInf = False"
| "f_lt NegInf b = True"
| "f_lt PosInf b = False"
| "f_lt a PosInf = True"

text \<open>Division by a positive constant (\<open>minutes / 60\<close>, \<open>seconds / 3600\<close>).\<close>

fun f_div_const :: "js_float \<Rightarrow> real \<Rightarrow> js_float" where
  "f_div_const (Fin x) k = Fin (x / k)"
| "f_div_const a k = a"

text \<open>\<open>coord[0] / coord[1]\<close> for an EXIF rational, a pair of non-negative integers:
  \<open>0 / 0\<close> is NaN and \<open>n / 0\<close> is plus infinity.\<close>

definition rational_quotient :: "nat \<times> nat \<Rightarrow> js_float" where
  "rational_quotient coord =
     (if snd coord = 0 then (if fst coord = 0 then NaN else PosInf)
      else Fin (real (fst coord) / real (snd coord)))"

text \<open>An array element read by index: past the end it is \<open>undefined\<close>, which is NaN in
  arithmetic.\<close>

definition element :: "js_float list \<Rightarrow> nat \<Rightarrow> js_float" where
  "element xs i = (if i < length xs then xs ! i else NaN)"

text \<open>\<open>Number(s)\<close> on the spellings an EXIF timestamp is made of: the empty string is 0, a
  string of decimal digits (with an optional sign, white space around it ignored) is its
  value. The other numeric literals of JavaScript (fractions, exponents, radix prefixes,
  \<open>Infinity\<close>) are not modelled and read as NaN here.\<close>

definition Number :: "string \<Rightarrow> js_float" where
  "Number s =
     (let t = trim s
      in if t = [] then Fin 0
         else if list_all isDigit t then Fin (real (decimal t))
         else (case t of
                 [] \<Rightarrow> NaN
               | c # r \<Rightarrow>
                   if (c = CHR ''+'' \<or> c = CHR ''-'') \<and> r \<noteq> [] \<and> list_all isDigit r
                   then Fin ((if c = CHR ''-'' then - 1 else 1) * real (decimal r))
                   else NaN))"

subsection \<open>JavaScript dates\<close>

text \<open>A \<open>Date\<close> holds a time value, or is the invalid date. The time value counts
  milliseconds on the local clock from 1970-01-01 00:00:00 local time (a zone without
  daylight-saving jumps), so that the local getters read the calendar date directly.\<close>

datatype js_date = InvalidDate | Date int

definition msPerDay :: int where
  "msPerDay = 86400000"

text \<open>The day number of a date of the proleptic Gregorian calendar (month 1 to 12), and
  the date of a day number; day 0 is 1970-01-01.\<close>

definition days_from_civil :: "int \<Rightarrow> int \<Rightarrow> int \<Rightarrow> int" where
  "days_from_civil y0 m d =
     (let y = (if m \<le> 2 then y0 - 1 else y0);
          era = y div 400;
          yoe = y - era * 400;
          doy = (153 * (if m > 2 then m - 3 else m + 9) + 2) div 5 + d - 1;
          doe = yoe * 365 + yoe div 4 - yoe div 100 + doy
      in era * 146097 + doe - 719468)"

definition civil_from_days :: "int \<Rightarrow> int \<times> int \<times> int" where
  "civil_from_days z0 =
     (let z = z0 + 719468;
          era = z div 146097;
          doe = z - era * 146097;
          yoe = (doe - doe div 1460 + doe div 36524 - doe div 146096) div 365;
          y = yoe + era * 400;
          doy = doe - (365 * yoe + yoe div 4 - yoe div 100);
          mp = (5 * doy + 2) div 153;
          d = doy - (153 * mp + 2) div 5 + 1;
          m = (if mp < 10 then mp + 3 else mp - 9)
      in (if m \<le> 2 then y + 1 else y, m, d))"

text \<open>\<open>ToIntegerOrInfinity\<close> on a finite value: truncation towards zero.\<close>

definition truncate :: "real \<Rightarrow> int" where
  "truncate x = (if x < 0 then \<lceil>x\<rceil> else \<lfloor>x\<rfloor>)"

text \<open>\<open>MakeDay\<close> and \<open>MakeTime\<close> of the language specification: a month index outside
  0 to 11 and a day outside the month carry over.\<close>

definition MakeDay :: "int \<Rightarrow> int \<Rightarrow> int \<Rightarrow> int" where
  "MakeDay year month date = days_from_civil (year + month div 12) (month mod 12 + 1) 1 + date - 1"

definition MakeTime :: "int \<Rightarrow> int \<Rightarrow> int \<Rightarrow> int" where
  "MakeTime hours minutes seconds = hours * 3600000 + minutes * 60000 + seconds * 1000"

text \<open>\<open>new Date(year, monthIndex, day, hours, minutes, seconds)\<close>: the invalid date as
  soon as one argument is not finite or the time value leaves the range of \<open>TimeClip\<close>; a
  year from 0 to 99 counts from 1900.\<close>

fun new_Date :: "js_float \<Rightarrow> js_float \<Rightarrow> js_float \<Rightarrow> js_float \<Rightarrow> js_float \<Rightarrow> js_float \<Rightarrow> js_date" where
  "new_Date (Fin year) (Fin month) (Fin day) (Fin hours) (Fin minutes) (Fin seconds) =
     (let y = truncate year;
          yr = (if 0 \<le> y \<and> y \<le> 99 then 1900 + y else y);
          tv = MakeDay yr (truncate month) (truncate day) * msPerDay
               + MakeTime (truncate hours) (truncate minutes) (truncate seconds)
      in if \<bar>tv\<bar> \<le> 8640000000000000 then Date tv else InvalidDate)"
| "new_Date year month day hours minutes seconds = InvalidDate"

text \<open>The local getters; \<open>None\<close> is the NaN they return on the invalid date.\<close>

fun getFullYear :: "js_date \<Rightarrow> int option" where
  "getFullYear InvalidDate = None"
| "getFullYear (Date t) = Some (fst (civil_from_days (t div msPerDay)))"

fun getMonth :: "js_date \<Rightarrow> int option" where
  "getMonth InvalidDate = None"
| "getMonth (Date t) = Some (fst (snd (civil_from_days (t div msPerDay))) - 1)"

fun getDate :: "js_date \<Rightarrow> int option" where
  "getDate InvalidDate = None"
| "getDate (Date t) = Some (snd (snd (civil_from_days (t div msPerDay))))"

text \<open>\<open>String(x)\<close> for the result of a getter.\<close>

fun String_number :: "int option \<Rightarrow> string" where
  "String_number None = ''NaN''"
| "String_number (Some i) = String_int i"

subsection \<open>The city table and \<open>findNearestCity\<close>\<close>

text \<open>A row of \<open>worldcities.csv\<close>. The fields \<open>lat\<close> and \<open>lng\<close> hold what
  \<open>parseFloat\<close> reads from the row's columns (NaN when a column does not parse).\<close>

record city_row =
  city :: string
  iso2 :: string
  country :: string
  lat :: js_float
  lng :: js_float

text \<open>The distance computed in the body of the scan (lines 108 to 111).\<close>

definition city_distance :: "js_float \<Rightarrow> js_float \<Rightarrow> city_row \<Rightarrow> js_float" where
  "city_distance latitude longitude c =
     f_sqrt (f_add (f_pow2 (f_sub latitude (lat c))) (f_pow2 (f_sub longitude (lng c))))"

text \<open>One turn of \<open>cities.forEach\<close> on the pair \<open>(nearestCity, minDistance)\<close>.\<close>

definition nearest_step ::
  "js_float \<Rightarrow> js_float \<Rightarrow> city_row option \<times> js_float \<Rightarrow> city_row \<Rightarrow> city_row option \<times> js_float" where
  "nearest_step latitude longitude st c =
     (let distance = city_distance latitude longitude c
      in if f_lt distance (snd st) then (Some c, distance) else st)"

definition findNearestCity :: "city_row list \<Rightarrow> js_float \<Rightarrow> js_float \<Rightarrow> city_row option" where
  "findNearestCity cities latitude longitude =
     fst (foldl (nearest_step latitude longitude) (None, PosInf) cities)"

subsection \<open>The EXIF block\<close>

text \<open>What \<open>piexif.load\<close> returns, restricted to the tags the program reads or writes. An
  absent tag is \<open>None\<close>. GPS coordinates are lists of rationals; the \<open>XP\<close> fields are byte
  lists.\<close>

record gps_ifd =
  GPSLatitudeRef :: "string option"
  GPSLatitude :: "(nat \<times> nat) list option"
  GPSLongitudeRef :: "string option"
  GPSLongitude :: "(nat \<times> nat) list option"

record exif_ifd =
  DateTimeOriginal :: "string option"
  DateTimeDigitized :: "string option"

record zeroth_ifd =
  XPTitle :: "nat list option"
  XPComment :: "nat list option"
  XPKeywords :: "nat list option"

record exif_data =
  zeroth :: zeroth_ifd
  Exif :: exif_ifd
  GPS :: gps_ifd

definition empty_exif :: exif_data where
  "empty_exif =
     \<lparr>zeroth = \<lparr>XPTitle = None, XPComment = None, XPKeywords = None\<rparr>,
      Exif = \<lparr>DateTimeOriginal = None, DateTimeDigitized = None\<rparr>,
      GPS = \<lparr>GPSLatitudeRef = None, GPSLatitude = None,
             GPSLongitudeRef = None, GPSLongitude = None\<rparr>\<rparr>"

text \<open>\<open>loadExifData\<close>: the argument is the outcome of \<open>piexif.load\<close> on the file's bytes,
  \<open>None\<close> when it throws; the function then returns the empty block.\<close>

definition loadExifData :: "exif_data option \<Rightarrow> exif_data" where
  "loadExifData loaded = (case loaded of None \<Rightarrow> empty_exif | Some exifData \<Rightarrow> exifData)"

definition convertDMSToDD :: "js_float list \<Rightarrow> string option \<Rightarrow> js_float" where
  "convertDMSToDD dms hemisphere =
     (let degrees = element dms 0;
          minutes = element dms 1;
          seconds = element dms 2;
          dd = f_add (f_add degrees (f_div_const minutes 60)) (f_div_const seconds 3600)
      in if hemisphere = Some ''S'' \<or> hemisphere = Some ''W'' then f_neg dd else dd)"

datatype js_error = TypeError | StatError | FfprobeError

text \<open>Lines 326 to 350 of \<open>processFile\<close>: the value of \<open>location\<close> after the GPS block,
  \<open>None\<close> for \<open>false\<close>. Without a latitude tag nothing happens; a missing longitude
  tag makes \<open>.map\<close> throw inside the block, which its handler logs, and \<open>location\<close>
  keeps its value.\<close>

definition extract_location :: "exif_data \<Rightarrow> city_row list \<Rightarrow> string option" where
  "extract_location exd cities =
     (case GPSLatitude (GPS exd) of
        None \<Rightarrow> None
      | Some la \<Rightarrow>
          (case GPSLongitude (GPS exd) of
             None \<Rightarrow> None
           | Some lo \<Rightarrow>
               (let gpsLatitude = map rational_quotient la;
                    gpsLongitude = map rational_quotient lo;
                    latitude = convertDMSToDD gpsLatitude (GPSLatitudeRef (GPS exd));
                    longitude = convertDMSToDD gpsLongitude (GPSLongitudeRef (GPS exd))
                in (case findNearestCity cities latitude longitude of
                      None \<Rightarrow> None
                    | Some nearestCity \<Rightarrow> Some (city nearestCity @ ''-'' @ iso2 nearestCity)))))"

text \<open>\<open>parseExifDateTime\<close>: with no space in the string \<open>timePart\<close> is \<open>undefined\<close> and
  \<open>timePart.split\<close> throws a TypeError; a missing component is \<open>undefined\<close> and makes the
  date invalid.\<close>

definition parseExifDateTime :: "string \<Rightarrow> js_error + js_date" where
  "parseExifDateTime exifDateTime =
     (case split CHR '' '' exifDateTime of
        [] \<Rightarrow> Inl TypeError
      | [datePart] \<Rightarrow> Inl TypeError
      | datePart # timePart # rest \<Rightarrow>
          (let ymd = map Number (split CHR '':'' datePart);
               hms = map Number (split CHR '':'' timePart)
           in Inr (new_Date (element ymd 0) (f_sub (element ymd 1) (Fin 1)) (element ymd 2)
                            (element hms 0) (element hms 1) (element hms 2))))"

text \<open>One statement \<open>if (exd.Exif[tag]) date = parseExifDateTime(exd.Exif[tag])\<close>: an
  absent or empty field leaves the date, a present one is parsed, and the parse may
  throw.\<close>

definition read_timestamp :: "string option \<Rightarrow> js_date \<Rightarrow> js_error + js_date" where
  "read_timestamp field date =
     (case field of
        None \<Rightarrow> Inr date
      | Some s \<Rightarrow> if s = [] then Inr date else parseExifDateTime s)"

text \<open>Lines 352 to 369: the value of \<open>date\<close> after the block. Both statements stand in
  one \<open>try\<close>: when the first throws, the handler logs it and the second is not run.\<close>

definition extract_date :: "exif_ifd \<Rightarrow> js_date \<Rightarrow> js_date" where
  "extract_date ex date0 =
     (case read_timestamp (DateTimeDigitized ex) date0 of
        Inl e \<Rightarrow> date0
      | Inr date1 \<Rightarrow>
          (case read_timestamp (DateTimeOriginal ex) date1 of
             Inl e \<Rightarrow> date1
           | Inr date2 \<Rightarrow> date2))"

subsection \<open>The enrichment requests\<close>

text \<open>The value \<open>sendLLMRequest\<close> returns: the \<open>response\<close> field of the reply (a string,
  or \<open>undefined\<close> when the reply has no such field), or the empty array of its handler.\<close>

datatype js_val = JUndefined | JStr string | JEmptyArray

text \<open>The outcome of \<open>instance.post\<close>: the promise rejects (no connection, a timeout, an
  error status), or it resolves with a reply whose \<open>data\<close> is missing, or with a reply
  whose \<open>data.response\<close> is the given value.\<close>

datatype http_reply = Rejected | NoData | Data js_val

text \<open>\<open>sendLLMRequest\<close>: the \<open>.catch\<close> on the promise logs a rejection and yields
  \<open>undefined\<close>; reading \<open>response.data.response\<close> then throws, and the handler returns
  \<open>[]\<close>.\<close>

definition sendLLMRequest :: "http_reply \<Rightarrow> js_val" where
  "sendLLMRequest reply =
     (case reply of
        Rejected \<Rightarrow> JEmptyArray
      | NoData \<Rightarrow> JEmptyArray
      | Data v \<Rightarrow> v)"

text \<open>Line 386, on a string: \<open>toLowerCase().trim().split(',').map(item => item.trim()).sort()\<close>.\<close>

definition normalize_tags :: "string \<Rightarrow> string list" where
  "normalize_tags s = sort (map trim (split CHR '','' (trim (toLowerCase s))))"

text \<open>Line 386, on what \<open>sendLLMRequest\<close> returned: only a string has \<open>toLowerCase\<close>.\<close>

definition tags_of :: "js_val \<Rightarrow> js_error + string list" where
  "tags_of v = (case v of JStr s \<Rightarrow> Inr (normalize_tags s) | JUndefined \<Rightarrow> Inl TypeError
                | JEmptyArray \<Rightarrow> Inl TypeError)"

text \<open>\<open>Array.from(Buffer.from(s, 'utf-16le'))\<close> on ASCII text.\<close>

definition utf16le :: "string \<Rightarrow> nat list" where
  "utf16le s = concat (map (\<lambda>c. [of_char c, 0]) s)"

text \<open>\<open>exifAddTags(exd, tags, caption)\<close>, called with an array of tags and no comment. An
  empty array is truthy, and \<open>Buffer.from\<close> of it has no bytes.\<close>

definition exifAddTags :: "exif_data \<Rightarrow> string list \<Rightarrow> js_val \<Rightarrow> exif_data" where
  "exifAddTags exifData tags caption =
     (let z0 = zeroth exifData;
          z1 = (case caption of
                  JUndefined \<Rightarrow> z0
                | JStr s \<Rightarrow> if s = [] then z0 else z0\<lparr>XPTitle := Some (utf16le s)\<rparr>
                | JEmptyArray \<Rightarrow> z0\<lparr>XPTitle := Some []\<rparr>)
      in exifData\<lparr>zeroth := z1\<lparr>XPKeywords := Some (utf16le (join '', '' tags))\<rparr>\<rparr>)"

subsection \<open>Command line, environment, file system and events\<close>

text \<open>The parsed command line, \<open>argv\<close> in the source: the field \<open>argv_useOllama\<close> is
  \<open>argv.useOllama\<close>, and so on. An option whose default is \<open>null\<close> is \<open>None\<close> when it
  is not given.\<close>

record argv =
  argv_useOllama :: bool
  argv_ollamaUrl :: string
  argv_sourceDir :: string
  argv_destDir :: string
  argv_processedDir :: "string option"
  argv_watchFolder :: bool
  argv_setGps :: "string option"

record stats =
  mtime :: js_date
  isFile :: bool

text \<open>What the outside world answers during one call of \<open>processFile\<close>: the result of
  \<open>fs.stat\<close> (\<open>None\<close> when it throws), the result of \<open>piexif.load\<close> on the file's
  bytes (\<open>None\<close> when it throws), whether \<open>ffprobe\<close> succeeds, and the outcomes of the
  keyword request and of the caption request.\<close>

record env =
  stat :: "stats option"
  piexif_load :: "exif_data option"
  ffprobe :: bool
  keywords_reply :: http_reply
  caption_reply :: http_reply

text \<open>The paths that exist on disk, files and directories alike, in the spelling
  \<open>path_join\<close> gives them.\<close>

type_synonym fs = "string list"

definition pathExists :: "fs \<Rightarrow> string \<Rightarrow> bool" where
  "pathExists disk p = (p \<in> set disk)"

text \<open>\<open>fs.ensureDir\<close>: afterwards the directory and the directories above it exist.\<close>

definition ancestors :: "string \<Rightarrow> string list" where
  "ancestors p = map (\<lambda>i. take i p) (filter (\<lambda>i. p ! i = CHR ''/'') [1..<length p])"

definition ensureDir :: "fs \<Rightarrow> string \<Rightarrow> fs" where
  "ensureDir disk d = d # ancestors d @ disk"

text \<open>The calls \<open>processFile\<close> makes to the outside world, and the two log lines that end
  a call early: the probe of a video, the two HTTP requests, \<open>fs.ensureDir\<close>,
  \<open>exifSavePicture\<close> (the block it serialises and the file it writes), \<open>fs.copy\<close>,
  \<open>fs.move\<close>, the \<open>[SKIP]\<close> line and the \<open>Error:\<close> line of the outer handler. The
  file operations are taken to succeed.\<close>

datatype event =
    Ffprobe string
  | PostKeywords
  | PostCaption
  | EnsureDir string
  | ExifSavePicture exif_data string
  | Copy string string
  | Move string string
  | LogSkip string
  | LogError js_error

subsection \<open>The stages of \<open>processFile\<close>\<close>

text \<open>Lines 285 to 291: the three extension tests, on the lower-cased path.\<close>

definition isJpegType :: "string \<Rightarrow> bool" where
  "isJpegType lcfp = list_ex (endsWith lcfp) [''.jpg'', ''.jpeg'', ''.jfif'']"

definition isPicture :: "string \<Rightarrow> bool" where
  "isPicture lcfp = (isJpegType lcfp \<or> list_ex (endsWith lcfp) [''.heic'', ''.png'', ''.webp''])"

definition isVideo :: "string \<Rightarrow> bool" where
  "isVideo lcfp = list_ex (endsWith lcfp) [''.mp4'', ''.avi'', ''.mov'']"

text \<open>\<open>llava_analyze_image\<close>: the keyword request, then the caption request.\<close>

definition llava_analyze_image :: "http_reply \<Rightarrow> http_reply \<Rightarrow> js_val \<times> js_val" where
  "llava_analyze_image keywords caption = (sendLLMRequest keywords, sendLLMRequest caption)"

text \<open>Lines 395 to 401: the destination directory. \<open>location\<close> is \<open>None\<close> for
  \<open>false\<close>.\<close>

definition dest_dir :: "string \<Rightarrow> js_date \<Rightarrow> string option \<Rightarrow> string" where
  "dest_dir destDir date location =
     (let year = String_number (getFullYear date);
          month = padStart 2 CHR ''0'' (String_number (map_option (\<lambda>m. m + 1) (getMonth date)));
          day0 = padStart 2 CHR ''0'' (String_number (getDate date));
          day = (case location of
                   None \<Rightarrow> day0
                 | Some l \<Rightarrow> if l = [] then day0 else day0 @ ''-'' @ l)
      in path_join [destDir, year, month, day])"

text \<open>Lines 410 to 419: the destination file before the collision loop. \<open>tags\<close> is
  \<open>None\<close> for \<open>false\<close>.\<close>

definition dest_file :: "string \<Rightarrow> string \<Rightarrow> bool \<Rightarrow> string list option \<Rightarrow> string" where
  "dest_file destPath filePath process_llm tags =
     (case tags of
        None \<Rightarrow> path_join [destPath, path_basename filePath]
      | Some ts \<Rightarrow>
          if process_llm \<and> length ts > 0
          then (let processedTags = join ''-'' (map replace_ws ts);
                    newFileName = path_name filePath @ ''-'' @ processedTags @ path_ext filePath
                in path_join [destPath, newFileName])
          else path_join [destPath, path_basename filePath])"

text \<open>Lines 424 to 426: the path the collision loop tries at a given counter.\<close>

definition numbered :: "string \<Rightarrow> string \<Rightarrow> nat \<Rightarrow> string" where
  "numbered destPath filePath counter =
     (let fileName = path_name filePath;
          fileExt = path_ext filePath
      in path_join [destPath, fileName @ ''_'' @ String_nat counter @ fileExt])"

text \<open>The loop of lines 422 to 428 ends because the paths it tries are pairwise different
  and the disk holds finitely many.\<close>

lemma digit_val_digit_char: "d < 10 \<Longrightarrow> digit_val (digit_char d) = d"
  by (simp add: digit_val_def digit_char_def)

lemma decimal_snoc: "decimal (xs @ [c]) = 10 * decimal xs + digit_val c"
  by (simp add: decimal_def)

lemma decimal_String_nat: "decimal (String_nat n) = n"
proof (induction n rule: String_nat.induct)
  case (1 n)
  show ?case
  proof (cases "n < 10")
    case True
    then show ?thesis
      by (subst String_nat.simps) (simp add: decimal_def digit_val_digit_char)
  next
    case False
    then have "decimal (String_nat (n div 10)) = n div 10"
      using 1 by simp
    with False show ?thesis
      by (subst String_nat.simps) (simp add: decimal_snoc digit_val_digit_char)
  qed
qed

lemma String_nat_inj: "String_nat m = String_nat n \<Longrightarrow> m = n"
  by (metis decimal_String_nat)

lemma path_join_pair:
  "f \<noteq> [] \<Longrightarrow> path_join [d, f] = (if d = [] then f else d @ ''/'' @ f)"
  by (simp add: path_join_def)

lemma numbered_inj: "numbered d p m = numbered d p n \<Longrightarrow> m = n"
  by (auto simp: numbered_def Let_def path_join_pair dest: String_nat_inj split: if_splits)

lemma finite_numbered: "finite {k. c \<le> k \<and> pathExists disk (numbered d p k)}"
proof -
  have "inj (numbered d p)"
    by (rule injI) (rule numbered_inj)
  then have "finite (numbered d p -` set disk)"
    by (simp add: finite_vimageI)
  moreover have "{k. c \<le> k \<and> pathExists disk (numbered d p k)} \<subseteq> numbered d p -` set disk"
    by (auto simp: pathExists_def)
  ultimately show ?thesis
    by (rule rev_finite_subset)
qed

lemma numbered_from_split:
  "{k. c \<le> k \<and> pathExists disk (numbered d p k)} =
     (if pathExists disk (numbered d p c) then {c} else {}) \<union>
     {k. Suc c \<le> k \<and> pathExists disk (numbered d p k)}"
  by (auto simp: Suc_le_eq le_less)

lemma card_numbered_from:
  "card {k. c \<le> k \<and> pathExists disk (numbered d p k)} =
     (if pathExists disk (numbered d p c) then 1 else 0) +
     card {k. Suc c \<le> k \<and> pathExists disk (numbered d p k)}"
proof -
  have fin: "finite {k. Suc c \<le> k \<and> pathExists disk (numbered d p k)}"
    by (rule finite_numbered)
  have notin: "c \<notin> {k. Suc c \<le> k \<and> pathExists disk (numbered d p k)}"
    by simp
  show ?thesis
    by (subst numbered_from_split)
       (simp add: card_insert_disjoint [OF fin notin] del: card_insert_disjoint)
qed

lemma card_numbered_less:
  "pathExists disk (numbered d p c) \<Longrightarrow>
     card {k. Suc c \<le> k \<and> pathExists disk (numbered d p k)}
       < card {k. c \<le> k \<and> pathExists disk (numbered d p k)}"
  using card_numbered_from [of c disk d p] by simp

lemma card_numbered_less_Suc:
  "card {k. Suc c \<le> k \<and> pathExists disk (numbered d p k)}
     < Suc (card {k. c \<le> k \<and> pathExists disk (numbered d p k)})"
  using card_numbered_from [of c disk d p] by simp

text \<open>Lines 422 to 428: \<open>while (await fs.pathExists(destFilePath)) { ...; counter++ }\<close>,
  with the values of \<open>destFilePath\<close> and \<open>counter\<close> on entry; the result is the value of
  \<open>destFilePath\<close> on exit.\<close>

function resolve_collision :: "fs \<Rightarrow> string \<Rightarrow> string \<Rightarrow> string \<Rightarrow> nat \<Rightarrow> string" where
  "resolve_collision disk destPath filePath destFilePath counter =
     (if pathExists disk destFilePath
      then resolve_collision disk destPath filePath (numbered destPath filePath counter) (counter + 1)
      else destFilePath)"
  by pat_completeness auto
termination
  by (relation "measure (\<lambda>(disk, destPath, filePath, destFilePath, counter).
        (if pathExists disk destFilePath then 1 else 0) +
        card {k. counter \<le> k \<and> pathExists disk (numbered destPath filePath k)})")
     (simp_all add: card_numbered_less card_numbered_less_Suc)

declare resolve_collision.simps [simp del]

text \<open>Lines 430 to 451, once the destination file is known: the picture is written with
  its updated EXIF block when \<open>process_exif_data && exd && tags.length > 0\<close> holds
  (\<open>exd\<close> is an object, hence truthy), and copied otherwise; then the source is moved
  when \<open>argv.processedDir\<close> is set.\<close>

definition place ::
  "argv \<Rightarrow> bool \<Rightarrow> exif_data \<Rightarrow> string list option \<Rightarrow> js_val \<Rightarrow> string \<Rightarrow> string \<Rightarrow> event list" where
  "place a process_exif_data exd tags caption filePath destFilePath =
     (case tags of
        None \<Rightarrow> [Copy filePath destFilePath]
      | Some ts \<Rightarrow>
          if process_exif_data \<and> length ts > 0
          then [ExifSavePicture (exifAddTags exd ts caption) destFilePath]
          else [Copy filePath destFilePath])
     @ (case argv_processedDir a of
          None \<Rightarrow> []
        | Some processed \<Rightarrow>
            if processed = [] then []
            else [Move filePath (path_join [processed, path_relative (argv_sourceDir a) filePath])])"

text \<open>Lines 394 to 454: the directory is built and created, the file name is chosen, and
  then the file is either skipped or placed.\<close>

definition build_and_place ::
  "argv \<Rightarrow> fs \<Rightarrow> string \<Rightarrow> string \<Rightarrow> bool \<Rightarrow> bool \<Rightarrow> bool \<Rightarrow> exif_data \<Rightarrow> js_date \<Rightarrow>
   string option \<Rightarrow> string list option \<Rightarrow> js_val \<Rightarrow> event list" where
  "build_and_place a disk filePath destDir skip process_exif_data process_llm exd date location
     tags caption =
     (let destPath = dest_dir destDir date location;
          disk1 = ensureDir disk destPath;
          destFilePath = dest_file destPath filePath process_llm tags
      in EnsureDir destPath #
         (if skip then [LogSkip filePath]
          else place a process_exif_data exd tags caption filePath
                 (resolve_collision disk1 destPath filePath destFilePath 1)))"

text \<open>The date and the location a call resolves (lines 273, 276 and 320 to 375): the
  modification time and no location, unless the file is JPEG-like.\<close>

definition capture_date :: "env \<Rightarrow> stats \<Rightarrow> string \<Rightarrow> js_date" where
  "capture_date e st filePath =
     (if isJpegType (toLowerCase filePath)
      then extract_date (Exif (loadExifData (piexif_load e))) (mtime st)
      else mtime st)"

definition resolved_location :: "env \<Rightarrow> string \<Rightarrow> city_row list \<Rightarrow> string option" where
  "resolved_location e filePath cities =
     (if isJpegType (toLowerCase filePath)
      then extract_location (loadExifData (piexif_load e)) cities
      else None)"

text \<open>\<open>processFile(filePath, destDir, cities)\<close>, run with the command line \<open>a\<close>, the
  answers \<open>e\<close> of the outside world and the disk \<open>disk\<close>. An exception that leaves a
  stage ends the call in the outer handler (lines 458 to 460).\<close>

definition processFile ::
  "argv \<Rightarrow> env \<Rightarrow> fs \<Rightarrow> string \<Rightarrow> string \<Rightarrow> city_row list \<Rightarrow> event list" where
  "processFile a e disk filePath destDir cities =
     (case stat e of
        None \<Rightarrow> [LogError StatError]
      | Some st \<Rightarrow>
          (let lcfp = toLowerCase filePath;
               skip = isVideo lcfp;
               process_video_data = isVideo lcfp;
               process_exif_data = isJpegType lcfp;
               process_llm = (argv_useOllama a \<and> \<not> isVideo lcfp \<and>
                              \<not> (endsWith lcfp ''.webp'' \<or> endsWith lcfp ''.heic''));
               exd = loadExifData (piexif_load e);
               location = resolved_location e filePath cities;
               date = capture_date e st filePath
           in if isFile st \<and> (isPicture lcfp \<or> isVideo lcfp)
              then (if process_video_data \<and> \<not> ffprobe e
                    then [Ffprobe filePath, LogError FfprobeError]
                    else (if process_video_data then [Ffprobe filePath] else []) @
                         (if process_llm
                          then PostKeywords # PostCaption #
                               (case llava_analyze_image (keywords_reply e) (caption_reply e) of
                                  (tags, caption) \<Rightarrow>
                                    (case tags_of tags of
                                       Inl err \<Rightarrow> [LogError err]
                                     | Inr ts \<Rightarrow>
                                         build_and_place a disk filePath destDir skip
                                           process_exif_data process_llm exd date location
                                           (Some ts) caption))
                          else build_and_place a disk filePath destDir skip process_exif_data
                                 process_llm exd date location None JUndefined))
              else []))"

subsection \<open>Example inputs\<close>

text \<open>The command line with every option at its default.\<close>

definition default_argv :: argv where
  "default_argv =
     \<lparr>argv_useOllama = False, argv_ollamaUrl = ''http://localhost:11434'',
      argv_sourceDir = ''./source'', argv_destDir = ''./dest'', argv_processedDir = None,
      argv_watchFolder = False, argv_setGps = None\<rparr>"

text \<open>A regular file last modified on 2 March 2024 at 10:00, with no EXIF block
  (\<open>piexif.load\<close> throws), that \<open>ffprobe\<close> can read, while the enrichment service cannot
  be reached.\<close>

definition plain_file :: env where
  "plain_file =
     \<lparr>stat = Some \<lparr>mtime = new_Date (Fin 2024) (Fin 2) (Fin 2) (Fin 10) (Fin 0) (Fin 0),
                    isFile = True\<rparr>,
      piexif_load = None, ffprobe = True,
      keywords_reply = Rejected, caption_reply = Rejected\<rparr>"

section \<open>Properties\<close>

subsection \<open>Splitting, trimming and lower-casing\<close>

lemma split_not_Nil: "split sep s \<noteq> []"
  by (induction s) (auto split: list.splits)

lemma join_Cons: "xs \<noteq> [] \<Longrightarrow> join sep (x # xs) = x @ sep @ join sep xs"
  by (cases xs) auto

lemma join_split: "join [sep] (split sep s) = s"
proof (induction s)
  case Nil
  then show ?case by simp
next
  case (Cons c cs)
  show ?case
  proof (cases "c = sep")
    case True
    then show ?thesis
      using Cons by (simp add: join_Cons split_not_Nil)
  next
    case False
    obtain w ws where ws: "split sep cs = w # ws"
      using split_not_Nil by (cases "split sep cs") auto
    show ?thesis
      using False Cons ws by (cases ws) auto
  qed
qed

lemma split_no_sep: "p \<in> set (split sep s) \<Longrightarrow> sep \<notin> set p"
  by (induction s arbitrary: p) (auto split: if_splits list.splits)

lemma length_split: "length (split sep s) = Suc (count_list s sep)"
  by (induction s) (auto split: list.splits simp: split_not_Nil)

lemma set_split_subset: "p \<in> set (split sep s) \<Longrightarrow> set p \<subseteq> set s"
  by (induction s arbitrary: p) (fastforce split: if_splits list.splits)+

lemma set_trim_subset: "set (trim s) \<subseteq> set s"
  by (auto simp: trim_def dest!: set_dropWhileD)

lemma trim_idem: "trim (trim s) = trim s"
proof -
  define u where "u = dropWhile isWhiteSpace s"
  have t: "trim s = rev (dropWhile isWhiteSpace (rev u))"
    by (simp add: trim_def u_def)
  have "dropWhile isWhiteSpace (trim s) = trim s"
  proof (cases u)
    case Nil
    then show ?thesis by (simp add: t)
  next
    case (Cons x u')
    then have nx: "\<not> isWhiteSpace x"
      using hd_dropWhile [of isWhiteSpace s] by (simp add: u_def)
    have "\<exists>ys. dropWhile isWhiteSpace (rev u) = ys @ [x]"
      using nx Cons by (simp add: dropWhile_append)
    then obtain ys where "dropWhile isWhiteSpace (rev u) = ys @ [x]" ..
    then have "trim s = x # rev ys"
      by (simp add: t)
    then show ?thesis
      using nx by simp
  qed
  then show ?thesis
    by (simp add: trim_def)
qed

lemma toLowerCase_char_idem: "toLowerCase_char (toLowerCase_char c) = toLowerCase_char c"
  by (auto simp: toLowerCase_char_def less_eq_char_def)

lemma toLowerCase_fixed: "set t \<subseteq> set (toLowerCase s) \<Longrightarrow> toLowerCase t = t"
proof -
  assume sub: "set t \<subseteq> set (toLowerCase s)"
  have "toLowerCase_char c = c" if "c \<in> set t" for c
  proof -
    from that sub obtain c' where "c = toLowerCase_char c'"
      by (auto simp: toLowerCase_def)
    then show ?thesis
      by (simp add: toLowerCase_char_idem)
  qed
  then show ?thesis
    by (simp add: toLowerCase_def map_idI)
qed

lemma normalize_tags_entries:
  "t \<in> set (normalize_tags s) \<Longrightarrow> trim t = t \<and> toLowerCase t = t"
proof -
  assume "t \<in> set (normalize_tags s)"
  then obtain p where p: "p \<in> set (split CHR '','' (trim (toLowerCase s)))" and t: "t = trim p"
    by (auto simp: normalize_tags_def)
  have "set t \<subseteq> set (toLowerCase s)"
    using set_trim_subset [of p] set_split_subset [OF p] set_trim_subset [of "toLowerCase s"] t
    by blast
  then show ?thesis
    by (simp add: t trim_idem toLowerCase_fixed)
qed

subsection \<open>Keyword normalisation (claim C5)\<close>

text \<open>Claim C5 says that the keyword response is split on commas, that each part is trimmed
  and lower-cased, that the parts are sorted, and that empty strings are dropped. The code
  of line 386 has no step that drops anything: an empty part stays in the list, and the
  empty response gives the list that holds the empty string.\<close>

theorem normalize_tags_keeps_empty_counterexample:
  "normalize_tags ''Beach,, Sunset'' = ['''', ''beach'', ''sunset''] \<and>
   normalize_tags '''' = ['''']"
  by code_simp

text \<open>Claim C5 as amended: the lower-cased and trimmed response is cut at its commas into
  parts that hold no comma, every part is trimmed, and the parts are sorted; every part
  is kept, so the list has one entry more than the response has commas; each entry is
  free of surrounding white space and of upper-case letters. The response
  \<open>Beach, Sunset, Family\<close> gives \<open>beach\<close>, \<open>family\<close>, \<open>sunset\<close>, and the file
  \<open>IMG.jpg\<close> is then named \<open>IMG-beach-family-sunset.jpg\<close>.\<close>

theorem normalize_tags_keeps_every_part:
  "(\<exists>parts. join '','' parts = trim (toLowerCase s) \<and>
        list_all (\<lambda>p. CHR '','' \<notin> set p) parts \<and>
        normalize_tags s = sort (map trim parts)) \<and>
   sorted (normalize_tags s) \<and>
   list_all (\<lambda>t. trim t = t \<and> toLowerCase t = t) (normalize_tags s) \<and>
   length (normalize_tags s) = Suc (count_list (trim (toLowerCase s)) CHR '','') \<and>
   normalize_tags ''Beach, Sunset, Family'' = [''beach'', ''family'', ''sunset''] \<and>
   dest_file ''d'' ''src/IMG.jpg'' True (Some (normalize_tags ''Beach, Sunset, Family''))
     = ''d/IMG-beach-family-sunset.jpg''"
proof -
  let ?parts = "split CHR '','' (trim (toLowerCase s))"
  have "join '','' ?parts = trim (toLowerCase s)"
    by (rule join_split)
  moreover have "list_all (\<lambda>p. CHR '','' \<notin> set p) ?parts"
    by (simp add: list_all_iff split_no_sep)
  moreover have "normalize_tags s = sort (map trim ?parts)"
    by (simp add: normalize_tags_def)
  ultimately have parts: "\<exists>parts. join '','' parts = trim (toLowerCase s) \<and>
        list_all (\<lambda>p. CHR '','' \<notin> set p) parts \<and>
        normalize_tags s = sort (map trim parts)"
    by blast
  have srt: "sorted (normalize_tags s)"
    by (simp add: normalize_tags_def)
  have entries: "list_all (\<lambda>t. trim t = t \<and> toLowerCase t = t) (normalize_tags s)"
    by (simp add: list_all_iff normalize_tags_entries)
  have len: "length (normalize_tags s) = Suc (count_list (trim (toLowerCase s)) CHR '','')"
    by (simp add: normalize_tags_def length_split)
  have ex1: "normalize_tags ''Beach, Sunset, Family'' = [''beach'', ''family'', ''sunset'']"
    by code_simp
  have ex2: "dest_file ''d'' ''src/IMG.jpg'' True (Some [''beach'', ''family'', ''sunset''])
     = ''d/IMG-beach-family-sunset.jpg''"
    by code_simp
  show ?thesis
    using parts srt entries len ex1 ex2 by simp
qed

text \<open>Claim C5, the amended statement at the response \<open>a,,b\<close>: three entries, sorted.\<close>

theorem normalize_tags_keeps_every_part_witness:
  "length (normalize_tags ''a,,b'') = 3 \<and> sorted (normalize_tags ''a,,b'')"
proof -
  have "count_list (trim (toLowerCase ''a,,b'')) CHR '','' = 2"
    by code_simp
  then show ?thesis
    using normalize_tags_keeps_every_part [of "''a,,b''"] by simp
qed

subsection \<open>A failed enrichment request (claim C1)\<close>

text \<open>Claim C1 says that a picture processed with enrichment enabled is still placed, with
  no tags and no caption, when an enrichment request fails. In the code
  \<open>sendLLMRequest\<close> answers a failed request with \<open>[]\<close>, and line 386 calls
  \<open>toLowerCase\<close> on it: the TypeError ends the call in the outer handler before the
  directory is built, and the file is not placed. The same happens when the reply has no
  \<open>response\<close> field. Here: a JPEG file, enrichment on, and the keyword request rejected
  (first run) or answered without the field (second run).\<close>

theorem failed_keyword_request_leaves_file_unplaced:
  "processFile (default_argv\<lparr>argv_useOllama := True\<rparr>) plain_file []
       ''./source/IMG_1.jpg'' ''./dest'' []
     = [PostKeywords, PostCaption, LogError TypeError] \<and>
   processFile (default_argv\<lparr>argv_useOllama := True\<rparr>)
       (plain_file\<lparr>keywords_reply := Data JUndefined, caption_reply := Data (JStr ''A beach'')\<rparr>) []
       ''./source/IMG_1.jpg'' ''./dest'' []
     = [PostKeywords, PostCaption, LogError TypeError]"
  by code_simp

subsection \<open>The forced-location option (claim C9)\<close>

lemma place_setGps: "place (a\<lparr>argv_setGps := g\<rparr>) = place a"
  by (auto simp: place_def fun_eq_iff split: option.splits)

lemma build_and_place_setGps: "build_and_place (a\<lparr>argv_setGps := g\<rparr>) = build_and_place a"
  by (simp add: build_and_place_def fun_eq_iff place_setGps Let_def)

text \<open>Claim C9: the option \<open>setGps\<close> is parsed and never read. Two calls of
  \<open>processFile\<close> that differ only in its value make the same calls to the outside world,
  in the same order and with the same arguments: the same directory, the same destination
  file, the same EXIF block written.\<close>

theorem setGps_has_no_effect:
  "processFile (a\<lparr>argv_setGps := g\<rparr>) e disk filePath destDir cities
     = processFile a e disk filePath destDir cities"
proof -
  have useOllama: "argv_useOllama (a\<lparr>argv_setGps := g\<rparr>) = argv_useOllama a"
    by simp
  show ?thesis
    unfolding processFile_def build_and_place_setGps useOllama ..
qed

end
